theory Spec2Isabelle
  imports Main "HOL-Library.AList" "HOL-Library.Char_ord" "HOL-Library.List_Lexorder"
begin

section \<open>The frame sieve of the Workhorse protocol\<close>

text \<open>
  \<^verbatim>\<open>WorkhorseProtocol.sieve_function\<close> (driver.py, lines 401-438) receives the receive
  buffer, a Python 2 byte string, and returns a list of \<open>(start, end)\<close> pairs. A byte
  string is a \<open>string\<close> here: a list of 8-bit characters.

  The function loops over three matchers. For the PD0 matcher it compiles its own
  regular expression \<^verbatim>\<open>\x7f\x7f(..)\<close> (DOTALL), and for every match of it a second one,
  \<^verbatim>\<open>\x7f\x7f(.{l})\<close>, where \<open>l\<close> is the 16-bit number unpacked from the two bytes of
  the group. Both expressions have the same shape: the two marker bytes followed by a
  fixed number of arbitrary bytes. \<open>finditer_sync n raw pos\<close> is \<^verbatim>\<open>finditer\<close> for that
  shape: the non-overlapping matches from left to right, the search starting at
  \<open>pos\<close>, each match as \<open>(match.start(), match.end())\<close>. The number \<open>l\<close> is at
  most 65535, and the expression compiler is taken to accept it as a repetition count.
\<close>

definition SYNC :: char where
  "SYNC = CHR 0x7F"

definition match_at :: "nat \<Rightarrow> string \<Rightarrow> nat \<Rightarrow> bool" where
  "match_at n raw pos =
     (pos + 2 + n \<le> length raw \<and> raw ! pos = SYNC \<and> raw ! (pos + 1) = SYNC)"

function finditer_sync :: "nat \<Rightarrow> string \<Rightarrow> nat \<Rightarrow> (nat \<times> nat) list" where
  "finditer_sync n raw pos =
     (if length raw < pos then []
      else if match_at n raw pos
           then (pos, pos + 2 + n) # finditer_sync n raw (pos + 2 + n)
      else finditer_sync n raw (pos + 1))"
  by pat_completeness auto
termination
  by (relation "measure (\<lambda>(n, raw, pos). Suc (length raw) - pos)")
     (auto simp: match_at_def)

declare finditer_sync.simps [simp del]

text \<open>
  \<^verbatim>\<open>unpack("H", match.group(1))\<close>: an unsigned 16-bit number in the byte order of the
  host, which is little-endian on the machines the driver runs on (and in the
  specification). \<open>group1\<close> is the group of the outer expression: the two bytes after
  the marker.
\<close>

definition unpack_H :: "string \<Rightarrow> nat" where
  "unpack_H s = of_char (s ! 0) + 256 * of_char (s ! 1)"

definition group1 :: "string \<Rightarrow> nat \<Rightarrow> string" where
  "group1 raw outer_pos = take 2 (drop (outer_pos + 2) raw)"

text \<open>
  The inner loop: every match of the second expression, searched from \<open>outer_pos\<close>, is
  appended when it starts at \<open>outer_pos\<close>.
\<close>

definition pd0_true_frames :: "string \<Rightarrow> nat \<times> nat \<Rightarrow> (nat \<times> nat) list" where
  "pd0_true_frames raw m =
     (let l = unpack_H (group1 raw (fst m));
          outer_pos = fst m
      in filter (\<lambda>m'. outer_pos = fst m') (finditer_sync l raw outer_pos))"

definition pd0_frames :: "string \<Rightarrow> (nat \<times> nat) list" where
  "pd0_frames raw = concat (map (pd0_true_frames raw) (finditer_sync 2 raw 0))"

text \<open>
  The three entries of \<^verbatim>\<open>sieve_matchers\<close>. The compiled expressions themselves are
  constants of particles.py, which is not among the sources: the PD0 entry is only
  compared with itself, and what the two ASCII expressions find in a buffer is the
  parameter \<open>fi\<close> (the \<open>(start, end)\<close> pairs of \<^verbatim>\<open>matcher.finditer(raw_data)\<close>).
\<close>

datatype matcher =
    ADCP_PD0_PARSED_REGEX_MATCHER
  | ADCP_SYSTEM_CONFIGURATION_REGEX_MATCHER
  | ADCP_COMPASS_CALIBRATION_REGEX_MATCHER

definition sieve_matchers :: "matcher list" where
  "sieve_matchers =
     [ADCP_PD0_PARSED_REGEX_MATCHER,
      ADCP_SYSTEM_CONFIGURATION_REGEX_MATCHER,
      ADCP_COMPASS_CALIBRATION_REGEX_MATCHER]"

definition matcher_frames ::
  "(matcher \<Rightarrow> string \<Rightarrow> (nat \<times> nat) list) \<Rightarrow> string \<Rightarrow> matcher \<Rightarrow> (nat \<times> nat) list" where
  "matcher_frames fi raw m =
     (if m = ADCP_PD0_PARSED_REGEX_MATCHER then pd0_frames raw else fi m raw)"

definition sieve_function ::
  "(matcher \<Rightarrow> string \<Rightarrow> (nat \<times> nat) list) \<Rightarrow> string \<Rightarrow> (nat \<times> nat) list" where
  "sieve_function fi raw_data = concat (map (matcher_frames fi raw_data) sieve_matchers)"

text \<open>
  Two concrete choices of the ASCII expressions for closed examples: expressions that
  match nowhere in the buffer, and expressions of a literal text each (\<^verbatim>\<open>re.escape\<close> of
  it), whose \<^verbatim>\<open>finditer\<close> yields the non-overlapping occurrences of the text from left
  to right.
\<close>

definition no_match :: "matcher \<Rightarrow> string \<Rightarrow> (nat \<times> nat) list" where
  "no_match m raw = []"

function finditer_literal :: "string \<Rightarrow> string \<Rightarrow> nat \<Rightarrow> (nat \<times> nat) list" where
  "finditer_literal lit raw pos =
     (if length lit = 0 \<or> length raw < pos + length lit then []
      else if take (length lit) (drop pos raw) = lit
           then (pos, pos + length lit) # finditer_literal lit raw (pos + length lit)
      else finditer_literal lit raw (pos + 1))"
  by pat_completeness auto
termination
  by (relation "measure (\<lambda>(lit, raw, pos). Suc (length raw) - pos)")
     (auto simp: neq_Nil_conv)

declare finditer_literal.simps [simp del]

definition literal_matcher :: "string \<Rightarrow> string \<Rightarrow> matcher \<Rightarrow> string \<Rightarrow> (nat \<times> nat) list" where
  "literal_matcher configuration calibration m raw =
     (case m of
        ADCP_PD0_PARSED_REGEX_MATCHER \<Rightarrow> []
      | ADCP_SYSTEM_CONFIGURATION_REGEX_MATCHER \<Rightarrow> finditer_literal configuration raw 0
      | ADCP_COMPASS_CALIBRATION_REGEX_MATCHER \<Rightarrow> finditer_literal calibration raw 0)"

section \<open>The protocol: values, failures and the device\<close>

text \<open>
  The Python values the handlers pass around, and the exceptions they raise or let
  through. \<open>ReadOnly\<close> is the failure kind the specification names for a rejected set.
\<close>

datatype pyval =
    PNone
  | PBool bool
  | PInt int
  | PStr string
  | PDict "(string \<times> pyval) list"

fun truthy :: "pyval \<Rightarrow> bool" where
  "truthy PNone = False"
| "truthy (PBool b) = b"
| "truthy (PInt i) = (i \<noteq> 0)"
| "truthy (PStr s) = (s \<noteq> [])"
| "truthy (PDict d) = (d \<noteq> [])"

datatype exn =
    InstrumentProtocolException string
  | InstrumentTimeoutException string
  | InstrumentParameterException string
  | TypeError string
  | AttributeError string
  | UnboundLocalError string
  | SocketError string
  | ReadOnly string

type_synonym kwargs = "(string \<times> pyval) list"

datatype InstrumentCmds =
    BREAK
  | SEND_LAST_SAMPLE
  | SAVE_SETUP_TO_RAM
  | START_DEPLOYMENT
  | OUTPUT_CALIBRATION_DATA
  | CLEAR_ERROR_STATUS_WORD
  | DISPLAY_ERROR_STATUS_WORD
  | CLEAR_FAULT_LOG
  | GET_FAULT_LOG
  | GET_SYSTEM_CONFIGURATION
  | GET_INSTRUMENT_TRANSFORM_MATRIX
  | RUN_TEST_200
  | SET
  | GET

datatype ProtocolState = UNKNOWN | COMMAND | AUTOSAMPLE | DIRECT_ACCESS

datatype ResourceAgentState = RA_STREAMING | RA_IDLE | RA_COMMAND

datatype DriverAsyncEvent = STATE_CHANGE | CONFIG_CHANGE

definition TIMEOUT :: pyval where
  "TIMEOUT = PInt 10"

definition Prompt_COMMAND :: string where
  "Prompt_COMMAND = [CHR 0x0D, CHR 0x0A, CHR ''>'', CHR 0x0D, CHR 0x0A, CHR ''>'']"

definition Prompt_ERR :: string where
  "Prompt_ERR = ''ERR:''"

definition Parameter_TIME :: string where
  "Parameter_TIME = ''TT''"

text \<open>
  Everything the handlers do to the device goes through methods of the base classes
  (\<^verbatim>\<open>_wakeup\<close>, \<^verbatim>\<open>_wakeup_until\<close>, \<^verbatim>\<open>_do_cmd_resp\<close>, \<^verbatim>\<open>_do_cmd_no_resp\<close>, \<^verbatim>\<open>_sync_clock\<close>,
  \<^verbatim>\<open>_driver_event\<close>), the parameter dictionary, the clock and a socket. None of them is
  among the sources, so each such call is an \<open>action\<close>, and the device is a parameter:
  a function \<open>env\<close> that, given all actions so far (the last one being the call just
  made), says what that call returns or raises. A method of the protocol is then a
  function from the trace of actions before it to its outcome and the trace after it.
  Both calls of \<^verbatim>\<open>_wakeup\<close> pass \<^verbatim>\<open>delay=0.3\<close>; \<^verbatim>\<open>time.sleep\<close> is left out.
\<close>

datatype action =
    SendBreak
  | Wakeup pyval
  | WakeupUntil pyval string
  | DoCmdResp InstrumentCmds "pyval list" kwargs
  | DoCmdNoResp InstrumentCmds "pyval list" kwargs
  | SyncClock InstrumentCmds string pyval string
  | GetTimestampDelayed string
  | GetConfigRepr
  | DriverEvent DriverAsyncEvent

type_synonym trace = "action list"
type_synonym env = "trace \<Rightarrow> exn + pyval"
type_synonym 'a prog = "trace \<Rightarrow> (exn + 'a) \<times> trace"

definition return :: "'a \<Rightarrow> 'a prog" where
  "return x = (\<lambda>h. (Inr x, h))"

definition raise :: "exn \<Rightarrow> 'a prog" where
  "raise e = (\<lambda>h. (Inl e, h))"

definition then_do :: "'a prog \<Rightarrow> ('a \<Rightarrow> 'b prog) \<Rightarrow> 'b prog" where
  "then_do m f = (\<lambda>h. case m h of (Inl e, h') \<Rightarrow> (Inl e, h') | (Inr x, h') \<Rightarrow> f x h')"

definition call :: "env \<Rightarrow> action \<Rightarrow> pyval prog" where
  "call env a = (\<lambda>h. (env (h @ [a]), h @ [a]))"

text \<open>
  A device that answers the calls made to it in order from a list of replies, and
  \<open>None\<close> once the list is used up.
\<close>

definition scripted :: "(exn + pyval) list \<Rightarrow> env" where
  "scripted replies = (\<lambda>h. if length h - 1 < length replies then replies ! (length h - 1)
                            else Inr PNone)"

text \<open>
  \<^verbatim>\<open>kwargs.get('timeout', TIMEOUT)\<close>.
\<close>

definition kwargs_get :: "kwargs \<Rightarrow> string \<Rightarrow> pyval \<Rightarrow> pyval" where
  "kwargs_get kwargs k d = (case map_of kwargs k of Some v \<Rightarrow> v | None \<Rightarrow> d)"

section \<open>Probing, starting and stopping logging\<close>

text \<open>
  \<^verbatim>\<open>_is_logging\<close> (lines 1805-1821) ignores its own \<open>timeout\<close> and wakes the device with
  the default one; any prompt but the command prompt counts as logging.
\<close>

definition is_logging :: "env \<Rightarrow> pyval \<Rightarrow> pyval prog" where
  "is_logging env timeout =
     then_do (call env (Wakeup TIMEOUT)) (\<lambda>prompt.
       if PStr Prompt_COMMAND = prompt then return (PBool False)
       else return (PBool True))"

text \<open>\<^verbatim>\<open>_start_logging\<close> (lines 1823-1837).\<close>

definition start_logging :: "env \<Rightarrow> pyval \<Rightarrow> bool prog" where
  "start_logging env timeout =
     then_do (is_logging env TIMEOUT) (\<lambda>logging.
       if truthy logging then return True
       else then_do (call env (DoCmdNoResp START_DEPLOYMENT [] [(''timeout'', timeout)]))
              (\<lambda>_. return True))"

text \<open>\<^verbatim>\<open>_stop_logging\<close> (lines 1839-1865).\<close>

definition stop_logging :: "env \<Rightarrow> pyval \<Rightarrow> bool prog" where
  "stop_logging env timeout =
     then_do (call env SendBreak) (\<lambda>_.
     then_do (call env (WakeupUntil timeout Prompt_COMMAND)) (\<lambda>_.
     then_do (is_logging env timeout) (\<lambda>logging.
       if truthy logging then raise (InstrumentProtocolException ''failed to stop logging'')
       else return True)))"

text \<open>
  \<^verbatim>\<open>self._stop_logging(*args, **kwargs)\<close>: the method takes one parameter, \<open>timeout\<close>, so
  Python raises \<open>TypeError\<close> before the body runs when the handler was given more than
  one positional argument, a keyword other than \<open>timeout\<close>, or the timeout twice.
\<close>

definition stop_logging_apply :: "env \<Rightarrow> pyval list \<Rightarrow> kwargs \<Rightarrow> bool prog" where
  "stop_logging_apply env args kwargs =
     (if 1 < length args then raise (TypeError ''_stop_logging() takes at most 2 arguments'')
      else if list_ex (\<lambda>kv. fst kv \<noteq> ''timeout'') kwargs
        then raise (TypeError ''_stop_logging() got an unexpected keyword argument'')
      else if args \<noteq> [] \<and> kwargs \<noteq> []
        then raise (TypeError ''_stop_logging() got multiple values for keyword argument'')
      else stop_logging env (case args of t # _ \<Rightarrow> t | [] \<Rightarrow> kwargs_get kwargs ''timeout'' TIMEOUT))"

section \<open>The state machine and its handlers\<close>

text \<open>
  Modelled from the spec: the dispatcher of the state machine (\<^verbatim>\<open>InstrumentFSM.on_event\<close>,
  mi.core) is not among the sources. A handler returns the next state, or \<open>None\<close> to
  stay; by sections 3 and 4.4 of the specification the mode changes only when the
  handler's sequence succeeds, and a failure leaves the mode as it was.
\<close>

definition fsm_on_event :: "ProtocolState \<Rightarrow> exn + (ProtocolState option \<times> 'r) \<Rightarrow> ProtocolState" where
  "fsm_on_event current outcome =
     (case outcome of
        Inl e \<Rightarrow> current
      | Inr (None, result) \<Rightarrow> current
      | Inr (Some next_state, result) \<Rightarrow> next_state)"

text \<open>\<^verbatim>\<open>_handler_unknown_discover\<close> (lines 1233-1258).\<close>

definition handler_unknown_discover ::
  "env \<Rightarrow> (ProtocolState option \<times> ResourceAgentState option) prog" where
  "handler_unknown_discover env =
     then_do (is_logging env TIMEOUT) (\<lambda>logging.
       if logging = PNone
         then raise (InstrumentProtocolException
                ''_handler_unknown_discover - unable to to determine state'')
       else if truthy logging then return (Some AUTOSAMPLE, Some RA_STREAMING)
       else return (Some COMMAND, Some RA_IDLE))"

text \<open>
  \<^verbatim>\<open>_handler_command_start_autosample\<close> (lines 1282-1308). The timestamp is read from the
  clock (\<^verbatim>\<open>get_timestamp_delayed\<close>) while the arguments of the first command are built.
\<close>

definition handler_command_start_autosample ::
  "env \<Rightarrow> pyval list \<Rightarrow> kwargs \<Rightarrow> (ProtocolState option \<times> ResourceAgentState option \<times> pyval) prog" where
  "handler_command_start_autosample env args kwargs =
     (let kw = AList.update ''timeout'' (PInt 30)
                 (AList.update ''expected_prompt'' (PStr Prompt_COMMAND) kwargs)
      in then_do (call env (GetTimestampDelayed ''%Y/%m/%d, %H:%M:%S'')) (\<lambda>ts.
         then_do (call env (DoCmdResp SET [PStr Parameter_TIME, ts] kw)) (\<lambda>resp.
         then_do (call env (DoCmdResp SAVE_SETUP_TO_RAM args kw)) (\<lambda>resp.
         then_do (call env (DoCmdNoResp START_DEPLOYMENT args kw)) (\<lambda>resp.
           return (Some AUTOSAMPLE, Some RA_STREAMING, PNone))))))"

text \<open>\<^verbatim>\<open>_handler_autosample_stop_autosample\<close> (lines 1310-1331).\<close>

definition handler_autosample_stop_autosample ::
  "env \<Rightarrow> pyval list \<Rightarrow> kwargs \<Rightarrow> (ProtocolState option \<times> ResourceAgentState option \<times> pyval) prog" where
  "handler_autosample_stop_autosample env args kwargs =
     (let timeout = kwargs_get kwargs ''timeout'' TIMEOUT
      in then_do (stop_logging env timeout) (\<lambda>_.
           return (Some COMMAND, Some RA_COMMAND, PNone)))"

text \<open>
  The three handlers that interrupt logging share one shape:
  \<^verbatim>\<open>
      error = None
      try:
          <body, which sets result>
      except Exception as e:
          error = e
      finally:
          self._start_logging()
      if(error):
          raise error
      return (next_state, (next_agent_state, result))
  \<close>
  An exception of the \<^verbatim>\<open>finally\<close> block leaves the function at once, so the lines after
  it run only when the block returns. \<open>result\<close> is \<open>None\<close> until the body sets it.
\<close>

definition try_except_finally :: "pyval prog \<Rightarrow> 'b prog \<Rightarrow> pyval prog" where
  "try_except_finally body fin =
     (\<lambda>h. case body h of
             (r, h1) \<Rightarrow>
               (case fin h1 of
                  (Inl e2, h2) \<Rightarrow> (Inl e2, h2)
                | (Inr _, h2) \<Rightarrow>
                    (case r of Inl error \<Rightarrow> (Inl error, h2) | Inr result \<Rightarrow> (Inr result, h2))))"

text \<open>\<^verbatim>\<open>_handler_autosample_get_calibration\<close> (lines 1401-1438): the body, then the handler.\<close>

definition get_calibration_body :: "env \<Rightarrow> pyval list \<Rightarrow> kwargs \<Rightarrow> pyval prog" where
  "get_calibration_body env args kwargs =
     then_do (stop_logging_apply env args kwargs) (\<lambda>_.
       call env (DoCmdResp OUTPUT_CALIBRATION_DATA args
                   (AList.update ''timeout'' (PInt 120) kwargs)))"

definition handler_autosample_get_calibration ::
  "env \<Rightarrow> pyval list \<Rightarrow> kwargs \<Rightarrow> (ProtocolState option \<times> ResourceAgentState option \<times> pyval) prog" where
  "handler_autosample_get_calibration env args kwargs =
     then_do (try_except_finally (get_calibration_body env args kwargs)
                (start_logging env TIMEOUT))
       (\<lambda>result. return (None, None, result))"

text \<open>\<^verbatim>\<open>_handler_autosample_get_configuration\<close> (lines 1440-1479).\<close>

definition get_configuration_body :: "env \<Rightarrow> pyval list \<Rightarrow> kwargs \<Rightarrow> pyval prog" where
  "get_configuration_body env args kwargs =
     then_do (stop_logging_apply env args kwargs) (\<lambda>_.
       call env (DoCmdResp GET_SYSTEM_CONFIGURATION args kwargs))"

definition handler_autosample_get_configuration ::
  "env \<Rightarrow> pyval list \<Rightarrow> kwargs \<Rightarrow> (ProtocolState option \<times> ResourceAgentState option \<times> pyval) prog" where
  "handler_autosample_get_configuration env args kwargs =
     then_do (try_except_finally (get_configuration_body env args kwargs)
                (start_logging env TIMEOUT))
       (\<lambda>result. return (None, None, result))"

text \<open>
  \<^verbatim>\<open>_handler_autosample_clock_sync\<close> (lines 1481-1523). The body never sets \<open>result\<close>.
\<close>

definition clock_sync_body :: "env \<Rightarrow> pyval list \<Rightarrow> kwargs \<Rightarrow> pyval prog" where
  "clock_sync_body env args kwargs =
     then_do (stop_logging_apply env args kwargs) (\<lambda>_.
     then_do (call env (SyncClock SET Parameter_TIME (kwargs_get kwargs ''timeout'' TIMEOUT)
                          ''%Y/%m/%dT, %H:%M:%S''))
       (\<lambda>_. return PNone))"

definition handler_autosample_clock_sync ::
  "env \<Rightarrow> pyval list \<Rightarrow> kwargs \<Rightarrow> (ProtocolState option \<times> ResourceAgentState option \<times> pyval) prog" where
  "handler_autosample_clock_sync env args kwargs =
     then_do (try_except_finally (clock_sync_body env args kwargs)
                (start_logging env TIMEOUT))
       (\<lambda>result. return (None, None, result))"

section \<open>The parameter table: refresh and set\<close>

text \<open>
  The attributes of the class \<^verbatim>\<open>Parameter\<close> (lines 164-207) in the order of their
  declaration, each with its value, the wire mnemonic. \<^verbatim>\<open>dir(Parameter)\<close> lists these
  names together with what the class inherits: \<open>ALL\<close>, the three methods of the
  enumeration, and names that start with an underscore.
\<close>

definition Parameter_attrs :: "(string \<times> string) list" where
  "Parameter_attrs =
     [(''SERIAL_DATA_OUT'', ''CD''), (''SERIAL_FLOW_CONTROL'', ''CF''), (''BANNER'', ''CH''),
      (''INSTRUMENT_ID'', ''CI''), (''SLEEP_ENABLE'', ''CL''),
      (''SAVE_NVRAM_TO_RECORDER'', ''CN''), (''POLLED_MODE'', ''CP''), (''XMIT_POWER'', ''CQ''),
      (''SPEED_OF_SOUND'', ''EC''), (''PITCH'', ''EP''), (''ROLL'', ''ER''), (''SALINITY'', ''ES''),
      (''COORDINATE_TRANSFORMATION'', ''EX''), (''SENSOR_SOURCE'', ''EZ''),
      (''TIME_PER_ENSEMBLE'', ''TE''), (''TIME_OF_FIRST_PING'', ''TG''),
      (''TIME_PER_PING'', ''TP''), (''TIME'', ''TT''),
      (''FALSE_TARGET_THRESHOLD'', ''WA''), (''BANDWIDTH_CONTROL'', ''WB''),
      (''CORRELATION_THRESHOLD'', ''WC''), (''SERIAL_OUT_FW_SWITCHES'', ''WD''),
      (''ERROR_VELOCITY_THRESHOLD'', ''WE''), (''BLANK_AFTER_TRANSMIT'', ''WF''),
      (''CLIP_DATA_PAST_BOTTOM'', ''WI''), (''RECEIVER_GAIN_SELECT'', ''WJ''),
      (''WATER_REFERENCE_LAYER'', ''WL''), (''WATER_PROFILING_MODE'', ''WM''),
      (''NUMBER_OF_DEPTH_CELLS'', ''WN''), (''PINGS_PER_ENSEMBLE'', ''WP''),
      (''DEPTH_CELL_SIZE'', ''WS''), (''TRANSMIT_LENGTH'', ''WT''), (''PING_WEIGHT'', ''WU''),
      (''AMBIGUITY_VELOCITY'', ''WV'')]"

definition dir_Parameter :: "string list" where
  "dir_Parameter =
     map fst Parameter_attrs @ [''ALL'', ''dict'', ''has'', ''list'', ''__doc__'', ''__module__'']"

definition getattr_Parameter :: "string \<Rightarrow> string option" where
  "getattr_Parameter attr = map_of Parameter_attrs attr"

definition startswith :: "string \<Rightarrow> string \<Rightarrow> bool" where
  "startswith s prefix = (take (length prefix) s = prefix)"

text \<open>
  \<^verbatim>\<open>_update_params\<close> (lines 950-985). The loop over \<^verbatim>\<open>sorted(dir(Parameter))\<close> carries the
  variables \<open>key\<close> and \<open>results\<close>; \<^verbatim>\<open>results += result + NEWLINE\<close> needs a string. The
  constant \<open>NEWLINE\<close> is not among the sources and is the parameter \<open>nl\<close>. The answer to
  \<open>GetConfigRepr\<close> is \<^verbatim>\<open>repr(self._param_dict.get_config())\<close>.
\<close>

fun get_loop ::
  "env \<Rightarrow> string \<Rightarrow> kwargs \<Rightarrow> string list \<Rightarrow> string option \<times> string \<Rightarrow>
     (string option \<times> string) prog" where
  "get_loop env nl kw [] acc = return acc"
| "get_loop env nl kw (attr # attrs) acc =
     (if attr \<notin> set [''dict'', ''has'', ''list'', ''ALL''] \<and> \<not> startswith attr ''_''
      then (case getattr_Parameter attr of
              None \<Rightarrow> raise (AttributeError attr)
            | Some key \<Rightarrow>
                then_do (call env (DoCmdResp GET [PStr key] kw)) (\<lambda>result.
                  case result of
                    PStr r \<Rightarrow> get_loop env nl kw attrs (Some key, snd acc @ r @ nl)
                  | _ \<Rightarrow> raise (TypeError ''unsupported operand type(s) for +'')))
      else get_loop env nl kw attrs acc)"

definition update_params :: "env \<Rightarrow> string \<Rightarrow> pyval list \<Rightarrow> kwargs \<Rightarrow> string prog" where
  "update_params env nl args kwargs =
     then_do (call env (Wakeup TIMEOUT)) (\<lambda>prompt.
     then_do (call env GetConfigRepr) (\<lambda>old_config.
       let kw = AList.update ''expected_prompt'' (PStr Prompt_COMMAND) kwargs
       in then_do (get_loop env nl kw (sort dir_Parameter) (None, [])) (\<lambda>acc.
          then_do (case fst acc of
                     None \<Rightarrow> raise (UnboundLocalError ''key'')
                   | Some key \<Rightarrow> call env (DoCmdResp GET [PStr key] kw)) (\<lambda>result.
          then_do (call env GetConfigRepr) (\<lambda>new_config.
          then_do (if new_config \<noteq> old_config then call env (DriverEvent CONFIG_CHANGE)
                   else return PNone) (\<lambda>_.
            return (snd acc)))))))"

text \<open>
  The keys the loop of \<^verbatim>\<open>_update_params\<close> asks the device for, in the order of the
  attributes it is given.
\<close>

definition refresh_keys :: "string list \<Rightarrow> string list" where
  "refresh_keys attrs =
     List.map_filter
       (\<lambda>attr. if attr \<notin> set [''dict'', ''has'', ''list'', ''ALL''] \<and> \<not> startswith attr ''_''
               then getattr_Parameter attr else None)
       attrs"

text \<open>
  The visibility each parameter is declared with in \<^verbatim>\<open>_build_param_dict\<close> (lines 465-781);
  a declaration that names none is read-write.
\<close>

datatype ParameterDictVisibility = READ_ONLY | READ_WRITE | IMMUTABLE

definition param_visibility :: "string \<Rightarrow> ParameterDictVisibility" where
  "param_visibility key =
     (if key = ''CD'' \<or> key = ''TT'' then READ_ONLY
      else if key = ''CF'' \<or> key = ''CN'' \<or> key = ''WD'' \<or> key = ''WM'' then IMMUTABLE
      else READ_WRITE)"

text \<open>
  Modelled from the spec: \<^verbatim>\<open>_verify_not_readonly\<close> is a method of the base protocol class
  (mi.core), which is not among the sources. By section 4.2 of the specification a set
  fails with \<open>ReadOnly\<close> if the parameter's mutability forbids it or its visibility marks
  it immutable at runtime, and by section 7 it is rejected before any I/O: the check
  makes no call to the device.
\<close>

definition verify_not_readonly :: "pyval list \<Rightarrow> kwargs \<Rightarrow> bool prog" where
  "verify_not_readonly args kwargs =
     (case args of
        PDict params # _ \<Rightarrow>
          if list_ex (\<lambda>kv. param_visibility (fst kv) = READ_ONLY
                          \<or> param_visibility (fst kv) = IMMUTABLE) params
          then raise (ReadOnly ''Attempt to set read only parameter(s)'')
          else return True
      | _ \<Rightarrow> raise (InstrumentParameterException ''Set parameters not a dict.''))"

text \<open>
  \<^verbatim>\<open>_set_params\<close> (lines 1560-1584). The loop over \<^verbatim>\<open>params.iteritems()\<close> takes the items
  in the order of the list; \<open>result\<close> is unbound when the dictionary is empty.
\<close>

fun set_loop :: "env \<Rightarrow> kwargs \<Rightarrow> (string \<times> pyval) list \<Rightarrow> pyval option \<Rightarrow> pyval option prog" where
  "set_loop env kwargs [] result = return result"
| "set_loop env kwargs ((key, val) # items) result =
     then_do (call env (DoCmdResp SET [PStr key, val] kwargs)) (\<lambda>r.
       set_loop env kwargs items (Some r))"

definition set_params :: "env \<Rightarrow> string \<Rightarrow> pyval list \<Rightarrow> kwargs \<Rightarrow> pyval prog" where
  "set_params env nl args kwargs =
     (case args of
        [] \<Rightarrow> raise (InstrumentParameterException ''Set command requires a parameter dict.'')
      | params # _ \<Rightarrow>
          then_do (verify_not_readonly args kwargs) (\<lambda>_.
            case params of
              PDict items \<Rightarrow>
                then_do (set_loop env kwargs items None) (\<lambda>result.
                then_do (update_params env nl [] []) (\<lambda>_.
                  case result of
                    None \<Rightarrow> raise (UnboundLocalError ''result'')
                  | Some r \<Rightarrow> return r))
            | _ \<Rightarrow> raise (AttributeError ''iteritems'')))"

section \<open>Properties of the frame sieve\<close>

lemma finditer_sync_mem:
  "m \<in> set (finditer_sync n raw pos) \<Longrightarrow>
     pos \<le> fst m \<and> snd m = fst m + 2 + n \<and> match_at n raw (fst m)"
proof (induction n raw pos rule: finditer_sync.induct)
  case (1 n raw pos)
  show ?case
  proof (cases "length raw < pos")
    case True
    with "1.prems" show ?thesis by (simp add: finditer_sync.simps)
  next
    case False
    show ?thesis
    proof (cases "match_at n raw pos")
      case True
      with False "1.prems"
      have "m = (pos, pos + 2 + n) \<or> m \<in> set (finditer_sync n raw (pos + 2 + n))"
        by (simp add: finditer_sync.simps [of n raw pos])
      then show ?thesis
      proof
        assume "m = (pos, pos + 2 + n)"
        with True show ?thesis by simp
      next
        assume "m \<in> set (finditer_sync n raw (pos + 2 + n))"
        with "1.IH"(1) [OF False True] show ?thesis by simp
      qed
    next
      case nm: False
      with False "1.prems" have "m \<in> set (finditer_sync n raw (pos + 1))"
        by (simp add: finditer_sync.simps [of n raw pos])
      with "1.IH"(2) [OF False nm] show ?thesis by simp
    qed
  qed
qed

lemma finditer_sync_sorted: "sorted_wrt (<) (map fst (finditer_sync n raw pos))"
proof (induction n raw pos rule: finditer_sync.induct)
  case (1 n raw pos)
  show ?case
  proof (cases "length raw < pos")
    case True
    then show ?thesis by (simp add: finditer_sync.simps)
  next
    case False
    show ?thesis
    proof (cases "match_at n raw pos")
      case True
      have "\<forall>m \<in> set (finditer_sync n raw (pos + 2 + n)). pos < fst m"
        using finditer_sync_mem [of _ n raw "pos + 2 + n"] by fastforce
      with "1.IH"(1) [OF False True] False True show ?thesis
        by (simp add: finditer_sync.simps [of n raw pos])
    next
      case nm: False
      with "1.IH"(2) [OF False nm] False show ?thesis
        by (simp add: finditer_sync.simps [of n raw pos])
    qed
  qed
qed

lemma filter_start_later:
  fixes p :: nat
  assumes "\<forall>m \<in> set ms. p < fst m"
  shows "filter (\<lambda>m'. p = fst m') ms = []"
  using assms by (induction ms) auto

text \<open>
  What the inner loop appends for a marker at \<open>p\<close> with the number \<open>l\<close> behind it: the
  span of \<open>2 + l\<close> bytes from \<open>p\<close> when the buffer holds that many, and nothing otherwise.
  No byte behind the span is looked at.
\<close>

lemma anchored_frames:
  "filter (\<lambda>m'. p = fst m') (finditer_sync l raw p) =
     (if match_at l raw p then [(p, p + 2 + l)] else [])"
proof (cases "length raw < p")
  case True
  then show ?thesis by (simp add: finditer_sync.simps match_at_def)
next
  case False
  show ?thesis
  proof (cases "match_at l raw p")
    case True
    have "\<forall>m \<in> set (finditer_sync l raw (p + 2 + l)). p < fst m"
      using finditer_sync_mem [of _ l raw "p + 2 + l"] by fastforce
    then have "filter (\<lambda>m'. p = fst m') (finditer_sync l raw (p + 2 + l)) = []"
      by (rule filter_start_later)
    with False True show ?thesis
      by (simp add: finditer_sync.simps [of l raw p])
  next
    case nm: False
    have "\<forall>m \<in> set (finditer_sync l raw (p + 1)). p < fst m"
      using finditer_sync_mem [of _ l raw "p + 1"] by fastforce
    then have "filter (\<lambda>m'. p = fst m') (finditer_sync l raw (p + 1)) = []"
      by (rule filter_start_later)
    with False nm show ?thesis
      by (simp add: finditer_sync.simps [of l raw p])
  qed
qed

lemma pd0_true_frames_eq:
  "pd0_true_frames raw m =
     (if match_at (unpack_H (group1 raw (fst m))) raw (fst m)
      then [(fst m, fst m + 2 + unpack_H (group1 raw (fst m)))] else [])"
  by (simp add: pd0_true_frames_def Let_def anchored_frames)

lemma concat_anchored_sorted:
  assumes "sorted_wrt (<) (map fst ms)"
    and "\<And>m. f m = [] \<or> (\<exists>e. f m = [(fst m, e)])"
  shows "sorted_wrt (<) (map fst (concat (map f ms)))"
  using assms(1)
proof (induction ms)
  case Nil
  then show ?case by simp
next
  case (Cons m ms)
  have tl: "sorted_wrt (<) (map fst (concat (map f ms)))"
    using Cons by simp
  have later: "\<forall>x \<in> set (concat (map f ms)). fst m < fst x"
  proof
    fix x assume "x \<in> set (concat (map f ms))"
    then obtain m' where m': "m' \<in> set ms" "x \<in> set (f m')" by auto
    from assms(2) [of m'] m'(2) have "fst x = fst m'" by auto
    with Cons.prems m'(1) show "fst m < fst x" by auto
  qed
  from assms(2) [of m] show ?case
  proof
    assume "f m = []"
    with tl show ?thesis by simp
  next
    assume "\<exists>e. f m = [(fst m, e)]"
    then obtain e where "f m = [(fst m, e)]" by blast
    with tl later show ?thesis by simp
  qed
qed

lemma pd0_frames_sorted: "sorted_wrt (<) (map fst (pd0_frames raw))"
  unfolding pd0_frames_def
  by (rule concat_anchored_sorted [OF finditer_sync_sorted]) (simp add: pd0_true_frames_eq)

lemma sieve_function_append:
  "sieve_function fi raw =
     pd0_frames raw @ fi ADCP_SYSTEM_CONFIGURATION_REGEX_MATCHER raw
       @ fi ADCP_COMPASS_CALIBRATION_REGEX_MATCHER raw"
  by (simp add: sieve_function_def sieve_matchers_def matcher_frames_def)







text \<open>
  Claim C8, as stated, fails: the frames are appended matcher by matcher, the binary
  ones first. A response block in front of a binary record comes after it in the list.
\<close>

theorem C8_ascii_before_binary_unsorted:
  "sieve_function (literal_matcher ''PS0'' ''AC'')
     (''AC'' @ [CHR 0x7F, CHR 0x7F, CHR 0x02, CHR 0x00]) = [(2, 6), (0, 2)]
   \<and> \<not> sorted (map fst (sieve_function (literal_matcher ''PS0'' ''AC'')
                          (''AC'' @ [CHR 0x7F, CHR 0x7F, CHR 0x02, CHR 0x00])))"
  by code_simp

text \<open>
  Claim C8, amended: the list returned by the sieve is the frames of the binary matcher,
  then those of the system configuration expression, then those of the compass
  calibration expression; the frames of the binary matcher are in strictly ascending
  order of their start offsets.
\<close>

theorem C8_sieve_order_by_matcher:
  "sieve_function fi raw =
     pd0_frames raw @ fi ADCP_SYSTEM_CONFIGURATION_REGEX_MATCHER raw
       @ fi ADCP_COMPASS_CALIBRATION_REGEX_MATCHER raw
   \<and> sorted_wrt (<) (map fst (pd0_frames raw))"
  by (simp add: sieve_function_append pd0_frames_sorted)

theorem C8_sieve_order_by_matcher_witness:
  "sorted_wrt (<) (map fst (pd0_frames
     [CHR 0x7F, CHR 0x7F, CHR 0x06, CHR 0x00, CHR 0x7F, CHR 0x7F, CHR 0x00, CHR 0x00]))"
  using C8_sieve_order_by_matcher
          [of no_match
              "[CHR 0x7F, CHR 0x7F, CHR 0x06, CHR 0x00, CHR 0x7F, CHR 0x7F, CHR 0x00, CHR 0x00]"]
  by (elim conjE)

section \<open>Properties of the protocol\<close>

lemma then_do_call_Inr: "env (h @ [a]) = Inr v \<Longrightarrow> then_do (call env a) f h = f v (h @ [a])"
  by (simp add: then_do_def call_def)

lemma then_do_call_Inl: "env (h @ [a]) = Inl e \<Longrightarrow> then_do (call env a) f h = (Inl e, h @ [a])"
  by (simp add: then_do_def call_def)

lemma is_logging_prompt:
  "env (h @ [Wakeup TIMEOUT]) = Inr prompt \<Longrightarrow>
     is_logging env t h = (Inr (PBool (prompt \<noteq> PStr Prompt_COMMAND)), h @ [Wakeup TIMEOUT])"
  by (auto simp: is_logging_def then_do_call_Inr return_def)

lemma start_logging_already:
  assumes "env (h @ [Wakeup TIMEOUT]) = Inr prompt" and "prompt \<noteq> PStr Prompt_COMMAND"
  shows "start_logging env timeout h = (Inr True, h @ [Wakeup TIMEOUT])"
  using assms by (simp add: start_logging_def then_do_def is_logging_prompt return_def)

lemma stop_logging_still_logging:
  assumes "env (h @ [SendBreak]) = Inr v1"
    and "env (h @ [SendBreak, WakeupUntil t Prompt_COMMAND]) = Inr v2"
    and "env (h @ [SendBreak, WakeupUntil t Prompt_COMMAND, Wakeup TIMEOUT]) = Inr prompt"
    and "prompt \<noteq> PStr Prompt_COMMAND"
  shows "stop_logging env t h =
           (Inl (InstrumentProtocolException ''failed to stop logging''),
            h @ [SendBreak, WakeupUntil t Prompt_COMMAND, Wakeup TIMEOUT])"
proof -
  have p: "is_logging env t (h @ [SendBreak, WakeupUntil t Prompt_COMMAND]) =
             (Inr (PBool True), h @ [SendBreak, WakeupUntil t Prompt_COMMAND, Wakeup TIMEOUT])"
    using is_logging_prompt [of env "h @ [SendBreak, WakeupUntil t Prompt_COMMAND]" prompt t]
      assms(3,4)
    by simp
  show ?thesis
    using assms(1,2)
    by (simp add: stop_logging_def then_do_call_Inr)
       (simp add: then_do_def p raise_def)
qed

text \<open>
  Claim C10: when the probe of \<^verbatim>\<open>_start_logging\<close> reports that the device is logging (the
  wake-up returns anything but the command prompt), the helper returns \<open>True\<close> and the
  probe is the only call it has made: no \<open>START_DEPLOYMENT\<close> is sent.
\<close>

theorem C10_start_logging_idempotent:
  assumes "env (h @ [Wakeup TIMEOUT]) = Inr prompt" and "prompt \<noteq> PStr Prompt_COMMAND"
  shows "start_logging env timeout h = (Inr True, h @ [Wakeup TIMEOUT])"
  using assms by (rule start_logging_already)

theorem C10_start_logging_idempotent_witness:
  "start_logging (scripted [Inr PNone]) TIMEOUT [] = (Inr True, [Wakeup TIMEOUT])"
  using C10_start_logging_idempotent [of "scripted [Inr PNone]" "[]" PNone TIMEOUT]
  by (simp add: scripted_def)

text \<open>
  Claim C4: in a stop request from autosample, once the break is sent and the wait for
  the command prompt has returned, the device is probed; if the probe still reports
  logging, \<^verbatim>\<open>_stop_logging\<close> and the handler fail with the protocol exception
  "failed to stop logging" (the specification's \<open>StopFailed\<close>), nothing more is sent,
  and the state stays \<open>AUTOSAMPLE\<close>.
\<close>

theorem C4_stop_failed_stays_autosample:
  assumes "t = kwargs_get kwargs ''timeout'' TIMEOUT"
    and "env (h @ [SendBreak]) = Inr v1"
    and "env (h @ [SendBreak, WakeupUntil t Prompt_COMMAND]) = Inr v2"
    and "env (h @ [SendBreak, WakeupUntil t Prompt_COMMAND, Wakeup TIMEOUT]) = Inr prompt"
    and "prompt \<noteq> PStr Prompt_COMMAND"
  shows "stop_logging env t h =
           (Inl (InstrumentProtocolException ''failed to stop logging''),
            h @ [SendBreak, WakeupUntil t Prompt_COMMAND, Wakeup TIMEOUT])
       \<and> handler_autosample_stop_autosample env args kwargs h =
           (Inl (InstrumentProtocolException ''failed to stop logging''),
            h @ [SendBreak, WakeupUntil t Prompt_COMMAND, Wakeup TIMEOUT])
       \<and> fsm_on_event AUTOSAMPLE (fst (handler_autosample_stop_autosample env args kwargs h))
           = AUTOSAMPLE"
proof -
  have s: "stop_logging env t h =
           (Inl (InstrumentProtocolException ''failed to stop logging''),
            h @ [SendBreak, WakeupUntil t Prompt_COMMAND, Wakeup TIMEOUT])"
    using assms(2-5) by (rule stop_logging_still_logging)
  have hd: "handler_autosample_stop_autosample env args kwargs h =
           (Inl (InstrumentProtocolException ''failed to stop logging''),
            h @ [SendBreak, WakeupUntil t Prompt_COMMAND, Wakeup TIMEOUT])"
    using s assms(1) by (simp add: handler_autosample_stop_autosample_def Let_def then_do_def)
  show ?thesis using s hd by (simp add: fsm_on_event_def)
qed

theorem C4_stop_failed_stays_autosample_witness:
  "handler_autosample_stop_autosample
     (scripted [Inr PNone, Inr (PStr Prompt_COMMAND), Inr PNone]) [] [] [] =
     (Inl (InstrumentProtocolException ''failed to stop logging''),
      [SendBreak, WakeupUntil TIMEOUT Prompt_COMMAND, Wakeup TIMEOUT])
   \<and> fsm_on_event AUTOSAMPLE
       (fst (handler_autosample_stop_autosample
               (scripted [Inr PNone, Inr (PStr Prompt_COMMAND), Inr PNone]) [] [] [])) = AUTOSAMPLE"
proof -
  let ?env = "scripted [Inr PNone, Inr (PStr Prompt_COMMAND), Inr PNone]"
  have t: "TIMEOUT = kwargs_get [] ''timeout'' TIMEOUT"
    by (simp add: kwargs_get_def)
  have a: "?env ([] @ [SendBreak]) = Inr PNone"
    and b: "?env ([] @ [SendBreak, WakeupUntil TIMEOUT Prompt_COMMAND]) = Inr (PStr Prompt_COMMAND)"
    and c: "?env ([] @ [SendBreak, WakeupUntil TIMEOUT Prompt_COMMAND, Wakeup TIMEOUT]) = Inr PNone"
    by (simp_all add: scripted_def)
  have d: "PNone \<noteq> PStr Prompt_COMMAND" by simp
  from C4_stop_failed_stays_autosample [OF t a b c d, of "[]"] show ?thesis
    by (simp add: fsm_on_event_def)
qed

text \<open>
  Claim C5 does not hold of the code. \<^verbatim>\<open>_handler_unknown_discover\<close> raises "unable to to
  determine state" when \<^verbatim>\<open>_is_logging\<close> returns \<open>None\<close>, but \<^verbatim>\<open>_is_logging\<close> returns
  \<open>True\<close> for every prompt that is not the command prompt and never \<open>None\<close>. A probe
  that ends with the error prompt \<open>ERR:\<close>, which is neither outcome, makes discovery
  return \<open>AUTOSAMPLE\<close>, and the state machine leaves \<open>UNKNOWN\<close> for it.
\<close>

theorem C5_discover_defaults_to_autosample:
  "handler_unknown_discover (scripted [Inr (PStr Prompt_ERR)]) [] =
     (Inr (Some AUTOSAMPLE, Some RA_STREAMING), [Wakeup TIMEOUT])
   \<and> fsm_on_event UNKNOWN (fst (handler_unknown_discover (scripted [Inr (PStr Prompt_ERR)]) []))
       = AUTOSAMPLE"
  by (simp add: handler_unknown_discover_def is_logging_def then_do_def call_def scripted_def
        return_def raise_def Prompt_ERR_def Prompt_COMMAND_def fsm_on_event_def)

lemma start_logging_cases:
  "start_logging env t h1 =
     (case env (h1 @ [Wakeup TIMEOUT]) of
        Inl e2 \<Rightarrow> (Inl e2, h1 @ [Wakeup TIMEOUT])
      | Inr p \<Rightarrow>
          if p \<noteq> PStr Prompt_COMMAND then (Inr True, h1 @ [Wakeup TIMEOUT])
          else (case env (h1 @ [Wakeup TIMEOUT, DoCmdNoResp START_DEPLOYMENT [] [(''timeout'', t)]]) of
                  Inl e3 \<Rightarrow> (Inl e3, h1 @ [Wakeup TIMEOUT,
                                  DoCmdNoResp START_DEPLOYMENT [] [(''timeout'', t)]])
                | Inr r \<Rightarrow> (Inr True, h1 @ [Wakeup TIMEOUT,
                                  DoCmdNoResp START_DEPLOYMENT [] [(''timeout'', t)]])))"
  by (simp add: start_logging_def is_logging_def then_do_def call_def return_def
           split: sum.splits)

lemma get_calibration_outcome:
  "handler_autosample_get_calibration env args kwargs h =
     (case start_logging env TIMEOUT (snd (get_calibration_body env args kwargs h)) of
        (Inl e2, h2) \<Rightarrow> (Inl e2, h2)
      | (Inr ok, h2) \<Rightarrow>
          (case fst (get_calibration_body env args kwargs h) of
             Inl e \<Rightarrow> (Inl e, h2)
           | Inr result \<Rightarrow> (Inr (None, None, result), h2)))"
  by (simp add: handler_autosample_get_calibration_def try_except_finally_def then_do_def
        return_def split: prod.splits sum.splits)

text \<open>
  Claim C2: whatever the body of \<^verbatim>\<open>_handler_autosample_get_calibration\<close> does (the stop
  of logging or the calibration command may raise, or both may return), the handler
  goes on to \<^verbatim>\<open>_start_logging\<close>, and the calls made after the body are exactly those of
  \<^verbatim>\<open>_start_logging\<close>: the probe, and \<open>START_DEPLOYMENT\<close> when the probe answers with the
  command prompt (nothing more when the probe answers otherwise or raises). When the
  body has raised \<open>e\<close> and the restart returns, the handler raises \<open>e\<close>; when both
  return, the handler returns the result of the body; when the restart raises, its
  exception is the outcome.
\<close>

theorem C2_restart_on_every_path:
  fixes env args kwargs h
  defines "h1 \<equiv> snd (get_calibration_body env args kwargs h)"
  defines "run \<equiv> handler_autosample_get_calibration env args kwargs h"
  defines "start \<equiv> DoCmdNoResp START_DEPLOYMENT [] [(''timeout'', TIMEOUT)]"
  shows "snd run = snd (start_logging env TIMEOUT h1)
       \<and> (\<exists>rest. snd run = h1 @ Wakeup TIMEOUT # rest)
       \<and> (env (h1 @ [Wakeup TIMEOUT]) = Inr (PStr Prompt_COMMAND) \<longrightarrow>
            snd run = h1 @ [Wakeup TIMEOUT, start])
       \<and> (\<forall>p. env (h1 @ [Wakeup TIMEOUT]) = Inr p \<and> p \<noteq> PStr Prompt_COMMAND \<longrightarrow>
            snd run = h1 @ [Wakeup TIMEOUT])
       \<and> (\<forall>e2. env (h1 @ [Wakeup TIMEOUT]) = Inl e2 \<longrightarrow>
            run = (Inl e2, h1 @ [Wakeup TIMEOUT]))
       \<and> (\<forall>e3. env (h1 @ [Wakeup TIMEOUT]) = Inr (PStr Prompt_COMMAND)
              \<and> env (h1 @ [Wakeup TIMEOUT, start]) = Inl e3 \<longrightarrow>
            run = (Inl e3, h1 @ [Wakeup TIMEOUT, start]))
       \<and> (\<forall>e ok. fst (get_calibration_body env args kwargs h) = Inl e
              \<and> fst (start_logging env TIMEOUT h1) = Inr ok \<longrightarrow>
            fst run = Inl e)
       \<and> (\<forall>e r. fst (get_calibration_body env args kwargs h) = Inl e
              \<and> env (h1 @ [Wakeup TIMEOUT]) = Inr (PStr Prompt_COMMAND)
              \<and> env (h1 @ [Wakeup TIMEOUT, start]) = Inr r \<longrightarrow>
            run = (Inl e, h1 @ [Wakeup TIMEOUT, start]))
       \<and> (\<forall>result ok. fst (get_calibration_body env args kwargs h) = Inr result
              \<and> fst (start_logging env TIMEOUT h1) = Inr ok \<longrightarrow>
            fst run = Inr (None, None, result))"
proof -
  note out = get_calibration_outcome [of env args kwargs h, folded h1_def run_def]
  note sl = start_logging_cases [of env TIMEOUT h1, folded start_def]
  show ?thesis
    unfolding out sl
    by (auto split: sum.splits prod.splits)
qed

theorem C2_restart_on_every_path_witness:
  "handler_autosample_get_calibration (scripted
      [Inr PNone, Inr (PStr Prompt_COMMAND), Inr (PStr Prompt_COMMAND),
       Inl (InstrumentTimeoutException ''AC''), Inr (PStr Prompt_COMMAND), Inr PNone]) [] [] []
     = (Inl (InstrumentTimeoutException ''AC''),
        [SendBreak, WakeupUntil TIMEOUT Prompt_COMMAND, Wakeup TIMEOUT,
         DoCmdResp OUTPUT_CALIBRATION_DATA [] [(''timeout'', PInt 120)],
         Wakeup TIMEOUT, DoCmdNoResp START_DEPLOYMENT [] [(''timeout'', TIMEOUT)]])"
proof -
  let ?env = "scripted [Inr PNone, Inr (PStr Prompt_COMMAND), Inr (PStr Prompt_COMMAND),
       Inl (InstrumentTimeoutException ''AC''), Inr (PStr Prompt_COMMAND), Inr PNone]"
  let ?h1 = "[SendBreak, WakeupUntil TIMEOUT Prompt_COMMAND, Wakeup TIMEOUT,
     DoCmdResp OUTPUT_CALIBRATION_DATA [] [(''timeout'', PInt 120)]]"
  let ?start = "DoCmdNoResp START_DEPLOYMENT [] [(''timeout'', TIMEOUT)]"
  have body: "get_calibration_body ?env [] [] [] = (Inl (InstrumentTimeoutException ''AC''), ?h1)"
    by (simp add: get_calibration_body_def stop_logging_apply_def stop_logging_def
        is_logging_def then_do_def call_def return_def raise_def scripted_def kwargs_get_def)
  have probe: "?env (?h1 @ [Wakeup TIMEOUT]) = Inr (PStr Prompt_COMMAND)"
    and sent: "?env (?h1 @ [Wakeup TIMEOUT, ?start]) = Inr PNone"
    by (simp_all add: scripted_def)
  from C2_restart_on_every_path [of ?env "[]" "[]" "[]"] body probe sent
  show ?thesis by simp
qed

text \<open>
  Claim C9 does not hold of the code. The restart stands unguarded in the \<^verbatim>\<open>finally\<close>
  block, so when it raises, its exception leaves the handler and \<^verbatim>\<open>raise error\<close> is never
  reached: the failure of the operation, kept in \<open>error\<close>, is reported nowhere. Below,
  the operation fails with a protocol exception and the probe of the restart with a
  timeout; the three handlers raise the timeout only.
\<close>

theorem C9_restore_failure_replaces_original:
  "handler_autosample_get_calibration
     (scripted [Inr PNone, Inr (PStr Prompt_COMMAND), Inr (PStr Prompt_COMMAND),
                Inl (InstrumentProtocolException ''calibration failed''),
                Inl (InstrumentTimeoutException ''no prompt'')]) [] [] []
   = (Inl (InstrumentTimeoutException ''no prompt''),
      [SendBreak, WakeupUntil TIMEOUT Prompt_COMMAND, Wakeup TIMEOUT,
       DoCmdResp OUTPUT_CALIBRATION_DATA [] [(''timeout'', PInt 120)], Wakeup TIMEOUT])
   \<and> handler_autosample_get_configuration
     (scripted [Inr PNone, Inr (PStr Prompt_COMMAND), Inr (PStr Prompt_COMMAND),
                Inl (InstrumentProtocolException ''configuration failed''),
                Inl (InstrumentTimeoutException ''no prompt'')]) [] [] []
   = (Inl (InstrumentTimeoutException ''no prompt''),
      [SendBreak, WakeupUntil TIMEOUT Prompt_COMMAND, Wakeup TIMEOUT,
       DoCmdResp GET_SYSTEM_CONFIGURATION [] [], Wakeup TIMEOUT])
   \<and> handler_autosample_clock_sync
     (scripted [Inr PNone, Inr (PStr Prompt_COMMAND), Inr (PStr Prompt_COMMAND),
                Inl (InstrumentProtocolException ''clock sync failed''),
                Inl (InstrumentTimeoutException ''no prompt'')]) [] [] []
   = (Inl (InstrumentTimeoutException ''no prompt''),
      [SendBreak, WakeupUntil TIMEOUT Prompt_COMMAND, Wakeup TIMEOUT,
       SyncClock SET Parameter_TIME TIMEOUT ''%Y/%m/%dT, %H:%M:%S'', Wakeup TIMEOUT])"
  by (simp add: handler_autosample_get_calibration_def handler_autosample_clock_sync_def
      handler_autosample_get_configuration_def get_configuration_body_def
      try_except_finally_def get_calibration_body_def clock_sync_body_def
      stop_logging_apply_def stop_logging_def start_logging_def is_logging_def
      then_do_def call_def return_def raise_def scripted_def kwargs_get_def)

lemma start_autosample_cases:
  fixes env args kwargs h
  defines "kw \<equiv> AList.update ''timeout'' (PInt 30)
                   (AList.update ''expected_prompt'' (PStr Prompt_COMMAND) kwargs)"
  defines "clock \<equiv> GetTimestampDelayed ''%Y/%m/%d, %H:%M:%S''"
  defines "run \<equiv> handler_command_start_autosample env args kwargs h"
  shows "run =
    (case env (h @ [clock]) of
       Inl e \<Rightarrow> (Inl e, h @ [clock])
     | Inr ts \<Rightarrow>
        (case env (h @ [clock, DoCmdResp SET [PStr Parameter_TIME, ts] kw]) of
           Inl e \<Rightarrow> (Inl e, h @ [clock, DoCmdResp SET [PStr Parameter_TIME, ts] kw])
         | Inr r1 \<Rightarrow>
            (case env (h @ [clock, DoCmdResp SET [PStr Parameter_TIME, ts] kw,
                            DoCmdResp SAVE_SETUP_TO_RAM args kw]) of
               Inl e \<Rightarrow> (Inl e, h @ [clock, DoCmdResp SET [PStr Parameter_TIME, ts] kw,
                            DoCmdResp SAVE_SETUP_TO_RAM args kw])
             | Inr r2 \<Rightarrow>
                (case env (h @ [clock, DoCmdResp SET [PStr Parameter_TIME, ts] kw,
                            DoCmdResp SAVE_SETUP_TO_RAM args kw,
                            DoCmdNoResp START_DEPLOYMENT args kw]) of
                   Inl e \<Rightarrow> (Inl e, h @ [clock, DoCmdResp SET [PStr Parameter_TIME, ts] kw,
                            DoCmdResp SAVE_SETUP_TO_RAM args kw,
                            DoCmdNoResp START_DEPLOYMENT args kw])
                 | Inr r3 \<Rightarrow> (Inr (Some AUTOSAMPLE, Some RA_STREAMING, PNone),
                       h @ [clock, DoCmdResp SET [PStr Parameter_TIME, ts] kw,
                            DoCmdResp SAVE_SETUP_TO_RAM args kw,
                            DoCmdNoResp START_DEPLOYMENT args kw])))))"
  unfolding run_def kw_def clock_def handler_command_start_autosample_def Let_def
  by (simp add: then_do_def call_def return_def split: sum.splits)

text \<open>
  Claim C7: \<^verbatim>\<open>_handler_command_start_autosample\<close> sets the time, saves the setup and
  sends the start command, in this order. The step that raises is the last call made;
  its exception is the outcome and the state stays \<open>COMMAND\<close>. When all three return
  the handler returns \<open>AUTOSAMPLE\<close>, and the state becomes \<open>AUTOSAMPLE\<close> in no other case.
\<close>

theorem C7_start_autosample_sequence:
  fixes env args kwargs h ts
  defines "kw \<equiv> AList.update ''timeout'' (PInt 30)
                   (AList.update ''expected_prompt'' (PStr Prompt_COMMAND) kwargs)"
  defines "clock \<equiv> GetTimestampDelayed ''%Y/%m/%d, %H:%M:%S''"
  defines "set_time \<equiv> DoCmdResp SET [PStr Parameter_TIME, ts] kw"
  defines "save \<equiv> DoCmdResp SAVE_SETUP_TO_RAM args kw"
  defines "start \<equiv> DoCmdNoResp START_DEPLOYMENT args kw"
  defines "run \<equiv> handler_command_start_autosample env args kwargs h"
  assumes "env (h @ [clock]) = Inr ts"
  shows "(env (h @ [clock, set_time]) = Inl e \<longrightarrow>
            run = (Inl e, h @ [clock, set_time]) \<and> fsm_on_event COMMAND (fst run) = COMMAND)
       \<and> (env (h @ [clock, set_time]) = Inr ra \<and> env (h @ [clock, set_time, save]) = Inl e \<longrightarrow>
            run = (Inl e, h @ [clock, set_time, save]) \<and> fsm_on_event COMMAND (fst run) = COMMAND)
       \<and> (env (h @ [clock, set_time]) = Inr ra \<and> env (h @ [clock, set_time, save]) = Inr rb
            \<and> env (h @ [clock, set_time, save, start]) = Inl e \<longrightarrow>
            run = (Inl e, h @ [clock, set_time, save, start])
            \<and> fsm_on_event COMMAND (fst run) = COMMAND)
       \<and> (env (h @ [clock, set_time]) = Inr ra \<and> env (h @ [clock, set_time, save]) = Inr rb
            \<and> env (h @ [clock, set_time, save, start]) = Inr rc \<longrightarrow>
            run = (Inr (Some AUTOSAMPLE, Some RA_STREAMING, PNone),
                   h @ [clock, set_time, save, start])
            \<and> fsm_on_event COMMAND (fst run) = AUTOSAMPLE)
       \<and> (fsm_on_event COMMAND (fst run) = AUTOSAMPLE \<longrightarrow>
            (\<exists>ra rb rc. env (h @ [clock, set_time]) = Inr ra
               \<and> env (h @ [clock, set_time, save]) = Inr rb
               \<and> env (h @ [clock, set_time, save, start]) = Inr rc))"
  using assms(7) start_autosample_cases [of env args kwargs h]
  unfolding run_def kw_def clock_def set_time_def save_def start_def
  by (auto simp: fsm_on_event_def split: sum.splits)

theorem C7_start_autosample_sequence_witness:
  "handler_command_start_autosample
     (scripted [Inr (PStr ''2013/02/26, 05:28:23''), Inr PNone, Inr PNone, Inr PNone]) [] [] []
   = (Inr (Some AUTOSAMPLE, Some RA_STREAMING, PNone),
      [GetTimestampDelayed ''%Y/%m/%d, %H:%M:%S'',
       DoCmdResp SET [PStr Parameter_TIME, PStr ''2013/02/26, 05:28:23'']
         [(''expected_prompt'', PStr Prompt_COMMAND), (''timeout'', PInt 30)],
       DoCmdResp SAVE_SETUP_TO_RAM []
         [(''expected_prompt'', PStr Prompt_COMMAND), (''timeout'', PInt 30)],
       DoCmdNoResp START_DEPLOYMENT []
         [(''expected_prompt'', PStr Prompt_COMMAND), (''timeout'', PInt 30)]])
   \<and> handler_command_start_autosample
         (scripted [Inr (PStr ''2013/02/26, 05:28:23''), Inr PNone,
                    Inl (InstrumentTimeoutException ''CK'')]) [] [] []
   = (Inl (InstrumentTimeoutException ''CK''),
      [GetTimestampDelayed ''%Y/%m/%d, %H:%M:%S'',
       DoCmdResp SET [PStr Parameter_TIME, PStr ''2013/02/26, 05:28:23'']
         [(''expected_prompt'', PStr Prompt_COMMAND), (''timeout'', PInt 30)],
       DoCmdResp SAVE_SETUP_TO_RAM []
         [(''expected_prompt'', PStr Prompt_COMMAND), (''timeout'', PInt 30)]])"
proof -
  let ?ts = "PStr ''2013/02/26, 05:28:23''"
  let ?kw = "[(''expected_prompt'', PStr Prompt_COMMAND), (''timeout'', PInt 30)]"
  let ?clock = "GetTimestampDelayed ''%Y/%m/%d, %H:%M:%S''"
  let ?set_time = "DoCmdResp SET [PStr Parameter_TIME, ?ts] ?kw"
  let ?save = "DoCmdResp SAVE_SETUP_TO_RAM [] ?kw"
  let ?start = "DoCmdNoResp START_DEPLOYMENT [] ?kw"
  let ?ok = "scripted [Inr ?ts, Inr PNone, Inr PNone, Inr PNone]"
  let ?bad = "scripted [Inr ?ts, Inr PNone, Inl (InstrumentTimeoutException ''CK'')]"
  have ok: "?ok ([] @ [?clock]) = Inr ?ts" "?ok [?clock, ?set_time] = Inr PNone"
      "?ok [?clock, ?set_time, ?save] = Inr PNone"
      "?ok [?clock, ?set_time, ?save, ?start] = Inr PNone"
    and bad: "?bad ([] @ [?clock]) = Inr ?ts" "?bad [?clock, ?set_time] = Inr PNone"
      "?bad [?clock, ?set_time, ?save] = Inl (InstrumentTimeoutException ''CK'')"
    by (simp_all add: scripted_def)
  from ok C7_start_autosample_sequence [where env = "?ok" and h = "[]" and ts = "?ts"
         and args = "[]" and kwargs = "[]" and ra = PNone and rb = PNone and rc = PNone]
  have 1: "handler_command_start_autosample ?ok [] [] []
   = (Inr (Some AUTOSAMPLE, Some RA_STREAMING, PNone), [?clock, ?set_time, ?save, ?start])"
    by simp
  from bad C7_start_autosample_sequence [where env = "?bad" and h = "[]" and ts = "?ts"
         and args = "[]" and kwargs = "[]" and ra = PNone
         and e = "InstrumentTimeoutException ''CK''"]
  have 2: "handler_command_start_autosample ?bad [] [] []
   = (Inl (InstrumentTimeoutException ''CK''), [?clock, ?set_time, ?save])"
    by simp
  from 1 2 show ?thesis by simp
qed

lemma verify_not_readonly_rejects:
  assumes "args = PDict items # rest" and "(key, val) \<in> set items"
    and "param_visibility key = READ_ONLY \<or> param_visibility key = IMMUTABLE"
  shows "verify_not_readonly args kwargs h =
           (Inl (ReadOnly ''Attempt to set read only parameter(s)''), h)"
proof -
  from assms(2,3)
  have "list_ex (\<lambda>kv. param_visibility (fst kv) = READ_ONLY
                      \<or> param_visibility (fst kv) = IMMUTABLE) items"
    by (force simp: list_ex_iff)
  with assms(1) show ?thesis by (simp add: verify_not_readonly_def raise_def)
qed

text \<open>
  Claim C6: when the dictionary given to \<^verbatim>\<open>_set_params\<close> names a parameter declared
  read-only or immutable, the set fails with \<open>ReadOnly\<close> and the trace is the one before
  the call: no command, for no parameter of the dictionary, has reached the device.
\<close>

theorem C6_read_only_rejected_before_any_write:
  assumes "args = PDict items # rest" and "(key, val) \<in> set items"
    and "param_visibility key = READ_ONLY \<or> param_visibility key = IMMUTABLE"
  shows "set_params env nl args kwargs h =
           (Inl (ReadOnly ''Attempt to set read only parameter(s)''), h)"
  using verify_not_readonly_rejects [OF assms, of kwargs h] assms(1)
  by (simp add: set_params_def then_do_def)

theorem C6_read_only_rejected_before_any_write_witness:
  "set_params (scripted []) [CHR 0x0D, CHR 0x0A]
     [PDict [(''CQ'', PInt 200), (''TT'', PStr ''2013/02/26,05:28:23'')]] [] [] =
     (Inl (ReadOnly ''Attempt to set read only parameter(s)''), [])"
  using C6_read_only_rejected_before_any_write
          [of "[PDict [(''CQ'', PInt 200), (''TT'', PStr ''2013/02/26,05:28:23'')]]"
              "[(''CQ'', PInt 200), (''TT'', PStr ''2013/02/26,05:28:23'')]" "[]"
              "''TT''" "PStr ''2013/02/26,05:28:23''" "scripted []" "[CHR 0x0D, CHR 0x0A]" "[]" "[]"]
  by (simp add: param_visibility_def)

lemma refresh_keys_Cons:
  "refresh_keys (attr # attrs) =
     (if attr \<notin> set [''dict'', ''has'', ''list'', ''ALL''] \<and> \<not> startswith attr ''_''
      then (case getattr_Parameter attr of None \<Rightarrow> refresh_keys attrs
            | Some key \<Rightarrow> key # refresh_keys attrs)
      else refresh_keys attrs)"
  by (simp add: refresh_keys_def List.map_filter_simps split: option.splits)

lemma get_loop_abort:
  assumes "list_all (\<lambda>attr. attr \<in> set [''dict'', ''has'', ''list'', ''ALL'']
                       \<or> startswith attr ''_'' \<or> getattr_Parameter attr \<noteq> None) attrs"
    and "i < length (refresh_keys attrs)"
    and "\<And>j. j < i \<Longrightarrow> \<exists>r. env (h @ map (\<lambda>k. DoCmdResp GET [PStr k] kw)
                                   (take (Suc j) (refresh_keys attrs))) = Inr (PStr r)"
    and "env (h @ map (\<lambda>k. DoCmdResp GET [PStr k] kw) (take (Suc i) (refresh_keys attrs))) = Inl e"
  shows "get_loop env nl kw attrs acc h =
           (Inl e, h @ map (\<lambda>k. DoCmdResp GET [PStr k] kw) (take (Suc i) (refresh_keys attrs)))"
  using assms
proof (induction attrs arbitrary: i h acc)
  case Nil
  then show ?case by (simp add: refresh_keys_def List.map_filter_simps)
next
  case (Cons attr attrs)
  let ?G = "\<lambda>k. DoCmdResp GET [PStr k] kw"
  from Cons.prems(1) have all: "list_all (\<lambda>attr. attr \<in> set [''dict'', ''has'', ''list'', ''ALL'']
                       \<or> startswith attr ''_'' \<or> getattr_Parameter attr \<noteq> None) attrs"
    by simp
  show ?case
  proof (cases "attr \<notin> set [''dict'', ''has'', ''list'', ''ALL''] \<and> \<not> startswith attr ''_''")
    case False
    then have rk: "refresh_keys (attr # attrs) = refresh_keys attrs"
      by (simp only: refresh_keys_Cons if_False)
    from False have gl: "get_loop env nl kw (attr # attrs) acc h = get_loop env nl kw attrs acc h"
      by (simp only: get_loop.simps if_False)
    show ?thesis
      unfolding gl rk
      using Cons.IH [OF all, of i h acc] Cons.prems(2,3,4) unfolding rk by blast
  next
    case True
    with Cons.prems(1) obtain key where key: "getattr_Parameter attr = Some key"
      by auto
    from True key have rk: "refresh_keys (attr # attrs) = key # refresh_keys attrs"
      by (simp add: refresh_keys_Cons)
    from True key have gl: "get_loop env nl kw (attr # attrs) acc h =
        then_do (call env (?G key)) (\<lambda>result.
                  case result of
                    PStr r \<Rightarrow> get_loop env nl kw attrs (Some key, snd acc @ r @ nl)
                  | _ \<Rightarrow> raise (TypeError ''unsupported operand type(s) for +'')) h"
      by simp
    show ?thesis
    proof (cases i)
      case 0
      with Cons.prems(4) rk have "env (h @ [?G key]) = Inl e" by simp
      then show ?thesis unfolding gl using 0 rk by (simp add: then_do_call_Inl)
    next
      case (Suc i')
      from Cons.prems(3) [of 0] Suc rk obtain r where r: "env (h @ [?G key]) = Inr (PStr r)"
        by auto
      have step: "get_loop env nl kw (attr # attrs) acc h =
                    get_loop env nl kw attrs (Some key, snd acc @ r @ nl) (h @ [?G key])"
        unfolding gl using r by (simp add: then_do_def call_def)
      have i': "i' < length (refresh_keys attrs)" using Cons.prems(2) Suc rk by simp
      have ok: "\<exists>r. env ((h @ [?G key]) @ map ?G (take (Suc j) (refresh_keys attrs))) = Inr (PStr r)"
        if "j < i'" for j
        using Cons.prems(3) [of "Suc j"] that Suc rk by simp
      have fail: "env ((h @ [?G key]) @ map ?G (take (Suc i') (refresh_keys attrs))) = Inl e"
        using Cons.prems(4) Suc rk by simp
      from Cons.IH [OF all i' ok fail, of "(Some key, snd acc @ r @ nl)"]
      show ?thesis unfolding step using Suc rk by simp
    qed
  qed
qed

lemma sorted_dir_Parameter_keys:
  "refresh_keys (sort dir_Parameter) =
     [''WV'', ''WB'', ''CH'', ''WF'', ''WI'', ''EX'', ''WC'', ''WS'', ''WE'', ''WA'', ''CI'', ''WN'',
      ''WP'', ''WU'', ''EP'', ''CP'', ''WJ'', ''ER'', ''ES'', ''CN'', ''EZ'', ''CD'', ''CF'', ''WD'',
      ''CL'', ''EC'', ''TT'', ''TG'', ''TE'', ''TP'', ''WT'', ''WM'', ''WL'', ''CQ'']"
  by code_simp

lemma sorted_dir_Parameter_values:
  "list_all (\<lambda>attr. attr \<in> set [''dict'', ''has'', ''list'', ''ALL'']
                \<or> startswith attr ''_'' \<or> getattr_Parameter attr \<noteq> None) (sort dir_Parameter)"
  by code_simp

lemma update_params_abort:
  assumes "kw = AList.update ''expected_prompt'' (PStr Prompt_COMMAND) kwargs"
    and "keys = refresh_keys (sort dir_Parameter)"
    and "env (h @ [Wakeup TIMEOUT]) = Inr prompt"
    and "env (h @ [Wakeup TIMEOUT, GetConfigRepr]) = Inr old_config"
    and "i < length keys"
    and "\<And>j. j < i \<Longrightarrow> \<exists>r. env (h @ [Wakeup TIMEOUT, GetConfigRepr]
                                   @ map (\<lambda>k. DoCmdResp GET [PStr k] kw) (take (Suc j) keys))
                             = Inr (PStr r)"
    and "env (h @ [Wakeup TIMEOUT, GetConfigRepr]
                @ map (\<lambda>k. DoCmdResp GET [PStr k] kw) (take (Suc i) keys)) = Inl e"
  shows "update_params env nl args kwargs h =
           (Inl e, h @ [Wakeup TIMEOUT, GetConfigRepr]
                     @ map (\<lambda>k. DoCmdResp GET [PStr k] kw) (take (Suc i) keys))"
proof -
  let ?h = "h @ [Wakeup TIMEOUT, GetConfigRepr]"
  have loop: "get_loop env nl kw (sort dir_Parameter) (None, []) ?h =
           (Inl e, ?h @ map (\<lambda>k. DoCmdResp GET [PStr k] kw) (take (Suc i) keys))"
    unfolding assms(2)
    by (rule get_loop_abort [OF sorted_dir_Parameter_values])
       (use assms(2,5,6,7) in auto)
  show ?thesis
    by (simp add: update_params_def then_do_def call_def Let_def assms(3) assms(4)
                  assms(1) [symmetric] loop)
qed

text \<open>
  Claim C3, as stated, fails. The loop of \<^verbatim>\<open>_update_params\<close> calls \<^verbatim>\<open>_do_cmd_resp\<close> with no
  handler around it, so the first GET that raises ends the refresh. Below, the GET of
  the first parameter (\<open>WV\<close>) times out: the exception is the outcome, and no GET has
  been issued for any of the other 33 parameters.
\<close>

theorem C3_first_failure_stops_refresh:
  "update_params
     (scripted [Inr PNone, Inr (PStr ''config''), Inl (InstrumentTimeoutException ''WV?'')])
     [CHR 0x0D, CHR 0x0A] [] [] []
   = (Inl (InstrumentTimeoutException ''WV?''),
      [Wakeup TIMEOUT, GetConfigRepr,
       DoCmdResp GET [PStr ''WV''] [(''expected_prompt'', PStr Prompt_COMMAND)]])"
proof -
  let ?env = "scripted [Inr PNone, Inr (PStr ''config''), Inl (InstrumentTimeoutException ''WV?'')]"
  let ?kw = "[(''expected_prompt'', PStr Prompt_COMMAND)]"
  let ?keys = "refresh_keys (sort dir_Parameter)"
  have "update_params ?env [CHR 0x0D, CHR 0x0A] [] [] [] =
          (Inl (InstrumentTimeoutException ''WV?''),
           [] @ [Wakeup TIMEOUT, GetConfigRepr]
              @ map (\<lambda>k. DoCmdResp GET [PStr k] ?kw) (take (Suc 0) ?keys))"
  proof (rule update_params_abort [where prompt = PNone and old_config = "PStr ''config''"])
    show "?kw = AList.update ''expected_prompt'' (PStr Prompt_COMMAND) []" by simp
    show "?keys = refresh_keys (sort dir_Parameter)" by simp
    show "?env ([] @ [Wakeup TIMEOUT]) = Inr PNone" by (simp add: scripted_def)
    show "?env ([] @ [Wakeup TIMEOUT, GetConfigRepr]) = Inr (PStr ''config'')"
      by (simp add: scripted_def)
    show "0 < length ?keys" by (simp add: sorted_dir_Parameter_keys)
    show "\<exists>r. ?env ([] @ [Wakeup TIMEOUT, GetConfigRepr]
                 @ map (\<lambda>k. DoCmdResp GET [PStr k] ?kw) (take (Suc j) ?keys)) = Inr (PStr r)"
      if "j < 0" for j using that by simp
    show "?env ([] @ [Wakeup TIMEOUT, GetConfigRepr]
                 @ map (\<lambda>k. DoCmdResp GET [PStr k] ?kw) (take (Suc 0) ?keys))
            = Inl (InstrumentTimeoutException ''WV?'')"
      by (simp add: sorted_dir_Parameter_keys scripted_def)
  qed
  then show ?thesis by (simp add: sorted_dir_Parameter_keys)
qed

text \<open>
  Claim C3, amended: the refresh asks for the parameters in the sorted order of their
  attribute names, one GET after the other; when the GET of a parameter fails, the
  refresh stops there: the failure is raised to the caller and no GET is issued for
  the parameters after it (nor is the configuration read again or a change event sent).
\<close>

theorem C3_refresh_aborts_at_failed_get:
  assumes "kw = AList.update ''expected_prompt'' (PStr Prompt_COMMAND) kwargs"
    and "keys = refresh_keys (sort dir_Parameter)"
    and "env (h @ [Wakeup TIMEOUT]) = Inr prompt"
    and "env (h @ [Wakeup TIMEOUT, GetConfigRepr]) = Inr old_config"
    and "i < length keys"
    and "\<And>j. j < i \<Longrightarrow> \<exists>r. env (h @ [Wakeup TIMEOUT, GetConfigRepr]
                                   @ map (\<lambda>k. DoCmdResp GET [PStr k] kw) (take (Suc j) keys))
                             = Inr (PStr r)"
    and "env (h @ [Wakeup TIMEOUT, GetConfigRepr]
                @ map (\<lambda>k. DoCmdResp GET [PStr k] kw) (take (Suc i) keys)) = Inl e"
  shows "update_params env nl args kwargs h =
           (Inl e, h @ [Wakeup TIMEOUT, GetConfigRepr]
                     @ map (\<lambda>k. DoCmdResp GET [PStr k] kw) (take (Suc i) keys))"
  using assms by (rule update_params_abort)

theorem C3_refresh_aborts_at_failed_get_witness:
  "update_params
     (scripted [Inr PNone, Inr (PStr ''config''), Inr (PStr ''WV = 175''), Inr (PStr ''WB = 1''),
                Inl (InstrumentTimeoutException ''CH?'')])
     [CHR 0x0D, CHR 0x0A] [] [] []
   = (Inl (InstrumentTimeoutException ''CH?''),
      [Wakeup TIMEOUT, GetConfigRepr,
       DoCmdResp GET [PStr ''WV''] [(''expected_prompt'', PStr Prompt_COMMAND)],
       DoCmdResp GET [PStr ''WB''] [(''expected_prompt'', PStr Prompt_COMMAND)],
       DoCmdResp GET [PStr ''CH''] [(''expected_prompt'', PStr Prompt_COMMAND)]])"
proof -
  let ?env = "scripted [Inr PNone, Inr (PStr ''config''), Inr (PStr ''WV = 175''),
                Inr (PStr ''WB = 1''), Inl (InstrumentTimeoutException ''CH?'')]"
  let ?kw = "[(''expected_prompt'', PStr Prompt_COMMAND)]"
  let ?keys = "refresh_keys (sort dir_Parameter)"
  have "update_params ?env [CHR 0x0D, CHR 0x0A] [] [] [] =
          (Inl (InstrumentTimeoutException ''CH?''),
           [] @ [Wakeup TIMEOUT, GetConfigRepr]
              @ map (\<lambda>k. DoCmdResp GET [PStr k] ?kw) (take (Suc 2) ?keys))"
  proof (rule C3_refresh_aborts_at_failed_get
                [where prompt = PNone and old_config = "PStr ''config''"])
    show "?kw = AList.update ''expected_prompt'' (PStr Prompt_COMMAND) []" by simp
    show "?keys = refresh_keys (sort dir_Parameter)" by simp
    show "?env ([] @ [Wakeup TIMEOUT]) = Inr PNone" by (simp add: scripted_def)
    show "?env ([] @ [Wakeup TIMEOUT, GetConfigRepr]) = Inr (PStr ''config'')"
      by (simp add: scripted_def)
    show "2 < length ?keys" by (simp add: sorted_dir_Parameter_keys)
    show "\<exists>r. ?env ([] @ [Wakeup TIMEOUT, GetConfigRepr]
                 @ map (\<lambda>k. DoCmdResp GET [PStr k] ?kw) (take (Suc j) ?keys)) = Inr (PStr r)"
      if "j < 2" for j
    proof -
      from that have "j = 0 \<or> j = 1" by auto
      then show ?thesis
        by (auto simp: sorted_dir_Parameter_keys scripted_def)
    qed
    show "?env ([] @ [Wakeup TIMEOUT, GetConfigRepr]
                 @ map (\<lambda>k. DoCmdResp GET [PStr k] ?kw) (take (Suc 2) ?keys))
            = Inl (InstrumentTimeoutException ''CH?'')"
      by (simp add: sorted_dir_Parameter_keys scripted_def)
  qed
  then show ?thesis by (simp add: sorted_dir_Parameter_keys)
qed

end
